theory Spec2Isabelle
  imports Main "HOL-Library.Sublist" "HOL-Library.Word"
begin

unbundle bit_operations_syntax

section \<open>MCP tool call validation: handler and routes\<close>

text \<open>
  The development embeds two TypeScript modules: the static class
  \<open>MCPToolCallValidationHandler\<close> (the validation flow adapter) and the router
  module \<open>routes/mcp.ts\<close> (the guard \<open>validationIDUserGuard\<close>, the two route
  handlers and the two routes that put the guard before them). JavaScript strings are modelled as \<open>string\<close>, a list of characters,
  so that \<open>s.startsWith(p)\<close> is \<open>prefix p s\<close>; nothing proved here depends on which
  characters there are. Every \<open>await\<close> is a sequential call:
  interleavings of other requests between two awaits are outside the model.
\<close>

subsection \<open>Errors, requests and responses\<close>

text \<open>
  Modelled from the spec: the errors a flow manager raises are declared in
  \<open>~/flow/manager\<close>, which is not among the sources. The kinds are those of the
  error taxonomy.
\<close>

datatype manager_error = NotFound | AlreadyExists | InvalidTransition | StorageFailure

text \<open>
  A thrown value: \<open>Error msg\<close> is the source's \<open>new Error(msg)\<close>, \<open>ManagerError k\<close> an
  error thrown by a method of the manager.
\<close>

datatype error = Error string | ManagerError manager_error

text \<open>\<open>req.user\<close> may be missing, and so may its \<open>id\<close>.\<close>

record User =
  id' :: "string option"

record Request =
  user :: "User option"
  validationId :: string

text \<open>
  Modelled from the spec: the status of a flow record, declared in \<open>~/flow/types\<close>,
  which is not among the sources. The routes compare it with "COMPLETED" and
  "FAILED".
\<close>

datatype FlowStatus = PENDING | COMPLETED | FAILED | EXPIRED

text \<open>
  The JSON bodies the routes send: \<open>{error}\<close>, \<open>{success: true}\<close> and
  \<open>{status, completed, failed, error}\<close>.
\<close>

datatype body =
    ErrorBody string
  | SuccessBody
  | StatusBody FlowStatus bool bool "error option"

text \<open>A sent response: HTTP status code and JSON body (\<open>res.json\<close> alone sends 200).\<close>

datatype response = Json nat body

subsection \<open>The guard \<open>validationIDUserGuard\<close>\<close>

text \<open>\<open>user?.id\<close>: optional chaining yields \<open>undefined\<close> when the user is missing.\<close>

definition user_id :: "Request \<Rightarrow> string option" where
  "user_id req = (case user req of None \<Rightarrow> None | Some u \<Rightarrow> id' u)"

definition startsWith :: "string \<Rightarrow> string \<Rightarrow> bool" where
  "startsWith s p = prefix p s"

text \<open>
  The guard returns \<open>void\<close>; its effect is the response it sends, if any.
  \<open>None\<close> means that no response was sent. The test \<open>!user?.id\<close> holds for
  \<open>undefined\<close> and for the empty string.
\<close>

definition validationIDUserGuard :: "Request \<Rightarrow> response option" where
  "validationIDUserGuard req =
     (case user_id req of
        None \<Rightarrow> Some (Json 401 (ErrorBody ''User not authenticated''))
      | Some uid \<Rightarrow>
          if uid = [] then Some (Json 401 (ErrorBody ''User not authenticated''))
          else if \<not> startsWith (validationId req) (uid @ '':'')
            then Some (Json 403 (ErrorBody ''Access denied''))
          else None)"

subsection \<open>The ambient world: clock, randomness, flow store\<close>

text \<open>
  \<open>Date.now()\<close> and \<open>crypto.randomBytes\<close> read the world outside the program.
  The world holds the value each successive clock read returns, the bytes each
  successive draw returns, and the state of the process's flow manager, which the
  routes reach through \<open>getFlowStateManager()\<close>.
\<close>

record 's world =
  clock :: "nat \<Rightarrow> int"
  clock_reads :: nat
  entropy :: "nat \<Rightarrow> 8 word"
  entropy_drawn :: nat
  flow_store :: 's

definition Date_now :: "'s world \<Rightarrow> int \<times> 's world" where
  "Date_now w = (clock w (clock_reads w), w\<lparr>clock_reads := Suc (clock_reads w)\<rparr>)"

definition randomBytes :: "nat \<Rightarrow> 's world \<Rightarrow> 8 word list \<times> 's world" where
  "randomBytes n w =
     (map (\<lambda>k. entropy w (entropy_drawn w + k)) [0..<n],
      w\<lparr>entropy_drawn := entropy_drawn w + n\<rparr>)"

subsection \<open>Library functions: number to string, base64url\<close>

text \<open>
  A template literal renders an integral number in decimal, with a minus sign when
  negative (clock values are far below the 1e21 where JavaScript switches notation).
\<close>

definition digit_char :: "nat \<Rightarrow> char" where
  "digit_char d = ''0123456789'' ! d"

fun digits_of :: "nat \<Rightarrow> string" where
  "digits_of n = (if n < 10 then [digit_char n] else digits_of (n div 10) @ [digit_char (n mod 10)])"

declare digits_of.simps [simp del]

definition number_to_string :: "int \<Rightarrow> string" where
  "number_to_string i = (if i < 0 then ''-'' @ digits_of (nat (- i)) else digits_of (nat i))"

text \<open>Reading a decimal numeral back, to state what the rendering means.\<close>

definition decimal_value :: "string \<Rightarrow> nat" where
  "decimal_value s = foldl (\<lambda>acc ch. 10 * acc + (of_char ch - 48)) 0 s"

text \<open>
  \<open>buf.toString('base64url')\<close>: RFC 4648 section 5, without padding. Three bytes give
  four characters, a rest of two bytes gives three, a rest of one byte gives two.
\<close>

definition base64url_alphabet :: string where
  "base64url_alphabet = ''ABCDEFGHIJKLMNOPQRSTUVWXYZabcdefghijklmnopqrstuvwxyz0123456789-_''"

definition enc6 :: "8 word \<Rightarrow> char" where
  "enc6 v = base64url_alphabet ! unat v"

fun base64url :: "8 word list \<Rightarrow> string" where
  "base64url (a # b # c # bs) =
     [enc6 (drop_bit 2 a),
      enc6 (push_bit 4 (a AND 3) OR drop_bit 4 b),
      enc6 (push_bit 2 (b AND 15) OR drop_bit 6 c),
      enc6 (c AND 63)] @ base64url bs"
| "base64url [a, b] =
     [enc6 (drop_bit 2 a),
      enc6 (push_bit 4 (a AND 3) OR drop_bit 4 b),
      enc6 (push_bit 2 (b AND 15))]"
| "base64url [a] = [enc6 (drop_bit 2 a), enc6 (push_bit 4 (a AND 3))]"
| "base64url [] = []"

text \<open>
  The matching strict decoder, used to state what a token decodes to: a character
  outside the alphabet and a rest of one character are rejected.
\<close>

fun index_of :: "'a \<Rightarrow> 'a list \<Rightarrow> nat option" where
  "index_of x [] = None"
| "index_of x (y # ys) = (if x = y then Some 0 else map_option Suc (index_of x ys))"

definition dec6 :: "char \<Rightarrow> 8 word option" where
  "dec6 ch = map_option of_nat (index_of ch base64url_alphabet)"

fun base64url_decode :: "string \<Rightarrow> 8 word list option" where
  "base64url_decode (p # q # r # s # cs) =
     (case (dec6 p, dec6 q, dec6 r, dec6 s, base64url_decode cs) of
        (Some x, Some y, Some z, Some u, Some rest) \<Rightarrow>
          Some ([push_bit 2 x OR drop_bit 4 y, push_bit 4 y OR drop_bit 2 z, push_bit 6 z OR u] @ rest)
      | _ \<Rightarrow> None)"
| "base64url_decode [p, q, r] =
     (case (dec6 p, dec6 q, dec6 r) of
        (Some x, Some y, Some z) \<Rightarrow> Some [push_bit 2 x OR drop_bit 4 y, push_bit 4 y OR drop_bit 2 z]
      | _ \<Rightarrow> None)"
| "base64url_decode [p, q] =
     (case (dec6 p, dec6 q) of
        (Some x, Some y) \<Rightarrow> Some [push_bit 2 x OR drop_bit 4 y]
      | _ \<Rightarrow> None)"
| "base64url_decode [p] = None"
| "base64url_decode [] = Some []"

subsection \<open>The class \<open>MCPToolCallValidationHandler\<close>: starting a flow\<close>

definition FLOW_TYPE :: string where
  "FLOW_TYPE = ''mcp_tool_validation''"

definition FLOW_TTL :: int where
  "FLOW_TTL = 10 * 60 * 1000"

text \<open>The metadata object literal built by \<open>initiateValidationFlow\<close>.\<close>

record 'a FlowMetadata =
  userId :: string
  serverName :: string
  toolName :: string
  toolArguments :: 'a
  state :: string
  timestamp :: int

definition generateValidationId :: "string \<Rightarrow> string \<Rightarrow> string \<Rightarrow> 's world \<Rightarrow> string \<times> 's world" where
  "generateValidationId uid srv tool w =
     (let (now, w') = Date_now w
      in (uid @ '':'' @ srv @ '':'' @ tool @ '':'' @ number_to_string now, w'))"

definition generateState :: "'s world \<Rightarrow> string \<times> 's world" where
  "generateState w = (let (bytes, w') = randomBytes 32 w in (base64url bytes, w'))"

text \<open>
  \<open>initiateValidationFlow\<close> takes no flow manager. It derives the id, draws the state
  token, reads the clock for the metadata and returns both (the logger calls are
  left out).
\<close>

definition initiateValidationFlow ::
  "string \<Rightarrow> string \<Rightarrow> string \<Rightarrow> 'a \<Rightarrow> 's world \<Rightarrow> (string \<times> 'a FlowMetadata) \<times> 's world" where
  "initiateValidationFlow uid srv tool args w =
     (let (vid, w1) = generateValidationId uid srv tool w;
          (st, w2) = generateState w1;
          (now, w3) = Date_now w2
      in ((vid, \<lparr>userId = uid, serverName = srv, toolName = tool, toolArguments = args,
                  state = st, timestamp = now\<rparr>), w3))"

subsection \<open>The flow manager as the handler sees it\<close>

text \<open>
  Modelled from the spec: the type \<open>FlowState\<close> of \<open>~/flow/types\<close> is not among the
  sources. The record follows the FlowRecord of the data model: key (id and type),
  status, metadata, result, error, creation and expiry times.
\<close>

record 'a FlowState =
  flowId :: string
  flowType :: string
  status :: FlowStatus
  metadata :: "'a FlowMetadata"
  result :: "bool option"
  error :: "error option"
  createdAt :: int
  expiresAt :: int

text \<open>
  The parameter \<open>flowManager: FlowStateManager<boolean>\<close> is an object with three
  methods the sources call. Each method acts on the manager's state \<open>'s\<close> and either
  throws (\<open>Inl\<close>) or returns (\<open>Inr\<close>); \<open>getFlowState\<close> returns a record or nothing.
\<close>

record ('s, 'a) FlowStateManager =
  getFlowState :: "string \<Rightarrow> string \<Rightarrow> 's \<Rightarrow> (error + 'a FlowState option) \<times> 's"
  completeFlow :: "string \<Rightarrow> string \<Rightarrow> bool \<Rightarrow> 's \<Rightarrow> (error + unit) \<times> 's"
  failFlow :: "string \<Rightarrow> string \<Rightarrow> error \<Rightarrow> 's \<Rightarrow> (error + unit) \<times> 's"

subsection \<open>The class \<open>MCPToolCallValidationHandler\<close>: completing and reading a flow\<close>

text \<open>The body of the \<open>try\<close> block of \<open>completeValidationFlow\<close>.\<close>

definition completeValidationFlow_try ::
  "string \<Rightarrow> ('s, 'a) FlowStateManager \<Rightarrow> 's \<Rightarrow> (error + bool) \<times> 's" where
  "completeValidationFlow_try vid m s =
     (case getFlowState m vid FLOW_TYPE s of
        (Inl e, s1) \<Rightarrow> (Inl e, s1)
      | (Inr None, s1) \<Rightarrow> (Inl (Error ''Validation flow not found''), s1)
      | (Inr (Some flowState), s1) \<Rightarrow>
          (case completeFlow m vid FLOW_TYPE True s1 of
             (Inl e, s2) \<Rightarrow> (Inl e, s2)
           | (Inr u, s2) \<Rightarrow> (Inr True, s2)))"

text \<open>
  The \<open>catch\<close> block awaits \<open>failFlow\<close> and then throws the caught error; when
  \<open>failFlow\<close> itself throws, that throw leaves the block.
\<close>

definition completeValidationFlow ::
  "string \<Rightarrow> ('s, 'a) FlowStateManager \<Rightarrow> 's \<Rightarrow> (error + bool) \<times> 's" where
  "completeValidationFlow vid m s =
     (case completeValidationFlow_try vid m s of
        (Inr b, s1) \<Rightarrow> (Inr b, s1)
      | (Inl err, s1) \<Rightarrow>
          (case failFlow m vid FLOW_TYPE err s1 of
             (Inl e, s2) \<Rightarrow> (Inl e, s2)
           | (Inr u, s2) \<Rightarrow> (Inl err, s2)))"

text \<open>The static method \<open>getFlowState\<close> of the handler class.\<close>

definition handler_getFlowState ::
  "string \<Rightarrow> ('s, 'a) FlowStateManager \<Rightarrow> 's \<Rightarrow> (error + 'a FlowMetadata option) \<times> 's" where
  "handler_getFlowState vid m s =
     (case getFlowState m vid FLOW_TYPE s of
        (Inl e, s1) \<Rightarrow> (Inl e, s1)
      | (Inr None, s1) \<Rightarrow> (Inr None, s1)
      | (Inr (Some flowState), s1) \<Rightarrow> (Inr (Some (metadata flowState)), s1))"

subsection \<open>The route handlers\<close>

text \<open>
  The handler function of \<open>POST /validation/confirm/:validationId\<close>, the last
  argument of \<open>router.post\<close>, given the manager that \<open>getFlowStateManager()\<close>
  returns. This is the function alone; the route it is registered in follows below.
\<close>

definition post_validation_confirm ::
  "Request \<Rightarrow> ('s, 'a) FlowStateManager \<Rightarrow> 's \<Rightarrow> response \<times> 's" where
  "post_validation_confirm req m s =
     (case handler_getFlowState (validationId req) m s of
        (Inl e, s1) \<Rightarrow> (Json 500 (ErrorBody ''Failed to confirm validation''), s1)
      | (Inr None, s1) \<Rightarrow> (Json 404 (ErrorBody ''Validation flow not found''), s1)
      | (Inr (Some flowState), s1) \<Rightarrow>
          (case completeValidationFlow (validationId req) m s1 of
             (Inl e, s2) \<Rightarrow> (Json 500 (ErrorBody ''Failed to confirm validation''), s2)
           | (Inr b, s2) \<Rightarrow> (Json 200 SuccessBody, s2)))"

text \<open>
  The handler function of \<open>GET /validation/status/:validationId\<close>, the last argument
  of \<open>router.get\<close>: again the function alone.
\<close>

definition get_validation_status ::
  "Request \<Rightarrow> ('s, 'a) FlowStateManager \<Rightarrow> 's \<Rightarrow> response \<times> 's" where
  "get_validation_status req m s =
     (case getFlowState m (validationId req) ''mcp_tool_validation'' s of
        (Inl e, s1) \<Rightarrow> (Json 500 (ErrorBody ''Failed to get validation status''), s1)
      | (Inr None, s1) \<Rightarrow> (Json 404 (ErrorBody ''Validation flow not found''), s1)
      | (Inr (Some flowState), s1) \<Rightarrow>
          (Json 200 (StatusBody (status flowState) (status flowState = COMPLETED)
                       (status flowState = FAILED) (error flowState)), s1))"

subsection \<open>The routes: guard first, handler second\<close>

text \<open>
  \<open>router.post(path, validationIDUserGuard, handler)\<close> registers two functions for
  the path. Express calls the first with \<open>(req, res, next)\<close> and calls the second
  only when the first calls \<open>next()\<close>. What a first function does to a request is
  the response it sends, if any, and whether it calls \<open>next\<close>.
\<close>

record stage_result =
  sent :: "response option"
  calls_next :: bool

text \<open>
  \<open>validationIDUserGuard\<close> is declared with the two parameters \<open>(req, res)\<close>. It has
  no name for the third argument and returns after each of its branches, so it
  never calls \<open>next\<close>.
\<close>

definition guard_stage :: "Request \<Rightarrow> stage_result" where
  "guard_stage req = \<lparr>sent = validationIDUserGuard req, calls_next = False\<rparr>"

text \<open>
  A route of two functions. The client gets the first response sent; \<open>None\<close> means
  that the request is left without a response. The handler runs, and acts on the
  manager, only after \<open>next()\<close>.
\<close>

definition route ::
  "(Request \<Rightarrow> stage_result) \<Rightarrow> (Request \<Rightarrow> ('s, 'a) FlowStateManager \<Rightarrow> 's \<Rightarrow> response \<times> 's)
     \<Rightarrow> Request \<Rightarrow> ('s, 'a) FlowStateManager \<Rightarrow> 's \<Rightarrow> response option \<times> 's" where
  "route first handler req m s =
     (if calls_next (first req)
      then (case sent (first req) of
              Some early \<Rightarrow> (Some early, snd (handler req m s))
            | None \<Rightarrow> (Some (fst (handler req m s)), snd (handler req m s)))
      else (sent (first req), s))"

text \<open>The two endpoints as \<open>createMcpRouter\<close> registers them.\<close>

definition confirm_endpoint ::
  "Request \<Rightarrow> ('s, 'a) FlowStateManager \<Rightarrow> 's \<Rightarrow> response option \<times> 's" where
  "confirm_endpoint = route guard_stage post_validation_confirm"

definition status_endpoint ::
  "Request \<Rightarrow> ('s, 'a) FlowStateManager \<Rightarrow> 's \<Rightarrow> response option \<times> 's" where
  "status_endpoint = route guard_stage get_validation_status"

subsection \<open>Observing the calls made on a manager\<close>

text \<open>
  A manager that records every method call made on it, in order, next to the state
  of the manager it wraps.
\<close>

datatype call =
    GetFlowState string string
  | CompleteFlow string string bool
  | FailFlow string string error

definition recording :: "('s, 'a) FlowStateManager \<Rightarrow> ('s \<times> call list, 'a) FlowStateManager" where
  "recording m =
     \<lparr>getFlowState = (\<lambda>i t (s, log).
        (fst (getFlowState m i t s), (snd (getFlowState m i t s), log @ [GetFlowState i t]))),
      completeFlow = (\<lambda>i t r (s, log).
        (fst (completeFlow m i t r s), (snd (completeFlow m i t r s), log @ [CompleteFlow i t r]))),
      failFlow = (\<lambda>i t e (s, log).
        (fst (failFlow m i t e s), (snd (failFlow m i t e s), log @ [FailFlow i t e])))\<rparr>"

subsection \<open>A flow manager after the specification\<close>

text \<open>
  Modelled from the spec: the flow store behind \<open>~/flow/manager\<close> is not among the
  sources. The store maps a key (id, type) to its record and knows the current time.
\<close>

record 'a FlowStore =
  records :: "((string \<times> string) \<times> 'a FlowState) list"
  time :: int

text \<open>
  Modelled from the spec: the store's \<open>get\<close>, missing from the sources. It returns the
  record if present and not expired; a record past \<open>expiresAt\<close> counts as absent.
\<close>

definition store_get :: "'a FlowStore \<Rightarrow> string \<Rightarrow> string \<Rightarrow> 'a FlowState option" where
  "store_get st i t =
     (case map_of (records st) (i, t) of
        None \<Rightarrow> None
      | Some r \<Rightarrow> if expiresAt r < time st then None else Some r)"

text \<open>
  Modelled from the spec: the store's overwriting \<open>put\<close>, missing from the sources.
\<close>

definition store_put :: "'a FlowState \<Rightarrow> 'a FlowStore \<Rightarrow> 'a FlowStore" where
  "store_put r st =
     st\<lparr>records := ((flowId r, flowType r), r)
            # filter (\<lambda>kv. fst kv \<noteq> (flowId r, flowType r)) (records st)\<rparr>"

text \<open>
  Modelled from the spec: the manager's \<open>getFlowState\<close>, missing from the sources:
  a pass-through read.
\<close>

definition spec_getFlowState ::
  "string \<Rightarrow> string \<Rightarrow> 'a FlowStore \<Rightarrow> (error + 'a FlowState option) \<times> 'a FlowStore" where
  "spec_getFlowState i t st = (Inr (store_get st i t), st)"

text \<open>
  Modelled from the spec: the manager's \<open>completeFlow\<close>, missing from the sources.
  It turns a live PENDING record into COMPLETED and stores the result; it fails with
  NotFound without a live record and with InvalidTransition on a terminal one.
\<close>

definition spec_completeFlow ::
  "string \<Rightarrow> string \<Rightarrow> bool \<Rightarrow> 'a FlowStore \<Rightarrow> (error + unit) \<times> 'a FlowStore" where
  "spec_completeFlow i t res st =
     (case store_get st i t of
        None \<Rightarrow> (Inl (ManagerError NotFound), st)
      | Some r \<Rightarrow>
          if status r = PENDING
          then (Inr (), store_put (r\<lparr>status := COMPLETED, result := Some res\<rparr>) st)
          else (Inl (ManagerError InvalidTransition), st))"

text \<open>
  Modelled from the spec: the manager's \<open>failFlow\<close>, missing from the sources. It
  turns a live PENDING record into FAILED and stores the error, under the error
  conditions of \<open>completeFlow\<close>.
\<close>

definition spec_failFlow ::
  "string \<Rightarrow> string \<Rightarrow> error \<Rightarrow> 'a FlowStore \<Rightarrow> (error + unit) \<times> 'a FlowStore" where
  "spec_failFlow i t err st =
     (case store_get st i t of
        None \<Rightarrow> (Inl (ManagerError NotFound), st)
      | Some r \<Rightarrow>
          if status r = PENDING
          then (Inr (), store_put (r\<lparr>status := FAILED, error := Some err\<rparr>) st)
          else (Inl (ManagerError InvalidTransition), st))"

text \<open>
  Modelled from the spec: the manager object of \<open>~/flow/manager\<close>, missing from the
  sources, with the three methods above.
\<close>

definition spec_manager :: "('a FlowStore, 'a) FlowStateManager" where
  "spec_manager =
     \<lparr>getFlowState = spec_getFlowState, completeFlow = spec_completeFlow, failFlow = spec_failFlow\<rparr>"

text \<open>
  Two records differ only in the state token of their metadata; two stores differ
  only in the state tokens of their records.
\<close>

definition differ_only_in_state :: "'a FlowState \<Rightarrow> 'a FlowState \<Rightarrow> bool" where
  "differ_only_in_state r r' = (r' = r\<lparr>metadata := (metadata r)\<lparr>state := state (metadata r')\<rparr>\<rparr>)"

definition stores_differ_only_in_state :: "'a FlowStore \<Rightarrow> 'a FlowStore \<Rightarrow> bool" where
  "stores_differ_only_in_state st st' =
     (time st = time st' \<and>
      list_all2 (\<lambda>kv kv'. fst kv = fst kv' \<and> differ_only_in_state (snd kv) (snd kv'))
        (records st) (records st'))"

text \<open>
  A manager that hands out the records of the manager it wraps with their state
  token replaced, and is that manager otherwise.
\<close>

definition with_state_token ::
  "(string \<Rightarrow> string) \<Rightarrow> ('s, 'a) FlowStateManager \<Rightarrow> ('s, 'a) FlowStateManager" where
  "with_state_token f m =
     m\<lparr>getFlowState := (\<lambda>i t s.
        case getFlowState m i t s of
          (Inr (Some r), s1) \<Rightarrow>
            (Inr (Some (r\<lparr>metadata := (metadata r)\<lparr>state := f (state (metadata r))\<rparr>\<rparr>)), s1)
        | (x, s1) \<Rightarrow> (x, s1))\<rparr>"

subsection \<open>Concrete worlds, managers and stores\<close>

text \<open>
  A world whose clock starts at 1700000000000 ms and advances by one per read, with
  an empty flow store.
\<close>

definition demo_world :: "(string \<times> int) list FlowStore world" where
  "demo_world =
     \<lparr>clock = (\<lambda>k. 1700000000000 + int k), clock_reads = 0,
      entropy = (\<lambda>k. of_nat (7 * k + 1)), entropy_drawn = 0,
      flow_store = \<lparr>records = [], time = 1700000000000\<rparr>\<rparr>"

text \<open>
  A manager object with fixed answers: every method returns or throws what it was
  built with and notes the call in its state.
\<close>

definition stub_manager ::
  "(error + 'a FlowState option) \<Rightarrow> (error + unit) \<Rightarrow> (error + unit) \<Rightarrow> (call list, 'a) FlowStateManager" where
  "stub_manager g c f =
     \<lparr>getFlowState = (\<lambda>i t s. (g, s @ [GetFlowState i t])),
      completeFlow = (\<lambda>i t r s. (c, s @ [CompleteFlow i t r])),
      failFlow = (\<lambda>i t e s. (f, s @ [FailFlow i t e]))\<rparr>"

text \<open>A store holding one live PENDING flow of user u1, with a given state token.\<close>

definition demo_record :: "string \<Rightarrow> (string \<times> int) list FlowState" where
  "demo_record tok =
     \<lparr>flowId = ''u1:srv:tool:1700000000000'', flowType = ''mcp_tool_validation'',
      status = PENDING,
      metadata = \<lparr>userId = ''u1'', serverName = ''srv'', toolName = ''tool'',
                   toolArguments = [(''a'', 1)], state = tok, timestamp = 1700000000001\<rparr>,
      result = None, error = None,
      createdAt = 1700000000002, expiresAt = 1700000600002\<rparr>"

definition demo_store :: "string \<Rightarrow> (string \<times> int) list FlowStore" where
  "demo_store tok =
     \<lparr>records = [((''u1:srv:tool:1700000000000'', ''mcp_tool_validation''), demo_record tok)],
      time = 1700000000500\<rparr>"

text \<open>
  The base64url text of the bytes 1, 8, 15, ..., 218, the first 32 bytes the demo
  world's entropy gives, as an independent encoder prints it.
\<close>

definition demo_token :: string where
  "demo_token = ''AQgPFh0kKzI5QEdOVVxjanF4f4aNlJuiqbC3vsXM09o''"

definition demo_request :: Request where
  "demo_request = \<lparr>user = Some \<lparr>id' = Some ''u1''\<rparr>, validationId = ''u1:srv:tool:1700000000000''\<rparr>"

section \<open>Supporting lemmas\<close>

subsection \<open>Number rendering\<close>

lemma digit_char_value: "d < 10 \<Longrightarrow> of_char (digit_char d) = 48 + d"
proof -
  assume "d < 10"
  then have "d \<in> {0, 1, 2, 3, 4, 5, 6, 7, 8, 9}"
    by simp arith
  then show ?thesis
    by (auto simp: digit_char_def)
qed

lemma decimal_value_snoc:
  "decimal_value (s @ [ch]) = 10 * decimal_value s + (of_char ch - 48)"
  by (simp add: decimal_value_def)

lemma decimal_value_digits_of: "decimal_value (digits_of n) = n"
proof (induction n rule: digits_of.induct)
  case (1 n)
  show ?case
  proof (cases "n < 10")
    case True
    then show ?thesis
      by (subst digits_of.simps) (simp add: decimal_value_def digit_char_value)
  next
    case False
    then show ?thesis
      using "1.IH" by (subst digits_of.simps) (simp add: decimal_value_snoc digit_char_value)
  qed
qed

lemma number_to_string_decimal: "0 \<le> i \<Longrightarrow> decimal_value (number_to_string i) = nat i"
  by (simp add: number_to_string_def decimal_value_digits_of)

lemma number_to_string_examples:
  "number_to_string 1700000000000 = ''1700000000000''"
  "number_to_string 0 = ''0''"
  by (simp_all add: number_to_string_def digits_of.simps digit_char_def)

lemma number_to_string_nonneg: "0 \<le> i \<Longrightarrow> number_to_string i = digits_of (nat i)"
  by (simp add: number_to_string_def)

lemma digit_char_in_digits: "d < 10 \<Longrightarrow> digit_char d \<in> set ''0123456789''"
  by (simp add: digit_char_def del: set_simps)

lemma digits_of_all_digits: "list_all (\<lambda>ch. ch \<in> set ''0123456789'') (digits_of n)"
proof (induction n rule: digits_of.induct)
  case (1 n)
  show ?case
  proof (cases "n < 10")
    case True
    then show ?thesis
      by (subst digits_of.simps) (simp add: digit_char_in_digits del: set_simps)
  next
    case False
    then show ?thesis
      using "1.IH" by (subst digits_of.simps) (simp add: digit_char_in_digits del: set_simps)
  qed
qed

lemma digits_of_not_empty: "digits_of n \<noteq> []"
  by (subst digits_of.simps) simp

lemma digit_char_zero: "d < 10 \<Longrightarrow> digit_char d = CHR ''0'' \<longleftrightarrow> d = 0"
proof -
  assume "d < 10"
  then have "d \<in> {0, 1, 2, 3, 4, 5, 6, 7, 8, 9}"
    by simp arith
  then show ?thesis
    by (auto simp: digit_char_def)
qed

lemma digits_of_no_leading_zero: "0 < n \<Longrightarrow> hd (digits_of n) \<noteq> CHR ''0''"
proof (induction n rule: digits_of.induct)
  case (1 n)
  show ?case
  proof (cases "n < 10")
    case True
    with "1.prems" show ?thesis
      by (subst digits_of.simps) (simp add: digit_char_zero)
  next
    case False
    then have "0 < n div 10" by simp
    with False "1.IH" have "hd (digits_of (n div 10)) \<noteq> CHR ''0''" by simp
    with False show ?thesis
      by (subst digits_of.simps) (simp add: hd_append digits_of_not_empty)
  qed
qed

subsection \<open>base64url: decoding undoes encoding\<close>

lemma alphabet_index_all:
  "list_all (\<lambda>n. index_of (base64url_alphabet ! n) base64url_alphabet = Some n) [0..<64]"
  by code_simp

lemma alphabet_index: "n < 64 \<Longrightarrow> index_of (base64url_alphabet ! n) base64url_alphabet = Some n"
  using alphabet_index_all by (simp add: list_all_iff)

lemma dec6_enc6: "v < 64 \<Longrightarrow> dec6 (enc6 v) = Some v"
  by (simp add: dec6_def enc6_def alphabet_index word_less_nat_alt)

lemma enc6_in_alphabet: "v < 64 \<Longrightarrow> enc6 v \<in> set base64url_alphabet"
  by (simp add: enc6_def word_less_nat_alt base64url_alphabet_def del: set_simps)

lemma masks: "(3 :: 8 word) = mask 2" "(15 :: 8 word) = mask 4" "(63 :: 8 word) = mask 6"
  by (simp_all add: mask_eq_exp_minus_1)

lemma bit8_cases:
  "k < LENGTH(8) \<Longrightarrow> k \<in> {0, 1, 2, 3, 4, 5, 6, 7 :: nat}"
  by simp arith

lemma lt64I: "take_bit 6 x = x \<Longrightarrow> (x :: 8 word) < 64"
proof -
  assume h: "take_bit 6 x = x"
  have "unat (take_bit 6 x) < 2 ^ 6"
    unfolding unsigned_take_bit_eq by (rule take_bit_nat_less_exp)
  then show ?thesis
    using h by (simp add: word_less_nat_alt)
qed

text \<open>The sextets cut from a group of bytes are below 64.\<close>

lemma sextet1_bound:
  fixes a b c :: "8 word"
  shows "drop_bit 2 a < 64"
  unfolding masks
  by (rule lt64I, rule bit_word_eqI, drule bit8_cases, auto simp: bit_simps simp flip: numeral_2_eq_2 numeral_3_eq_3 dest: bit_imp_le_length)

lemma sextet2_bound:
  fixes a b c :: "8 word"
  shows "push_bit 4 (a AND 3) OR drop_bit 4 b < 64"
  unfolding masks
  by (rule lt64I, rule bit_word_eqI, drule bit8_cases, auto simp: bit_simps simp flip: numeral_2_eq_2 numeral_3_eq_3 dest: bit_imp_le_length)

lemma sextet3_bound:
  fixes a b c :: "8 word"
  shows "push_bit 2 (b AND 15) OR drop_bit 6 c < 64"
  unfolding masks
  by (rule lt64I, rule bit_word_eqI, drule bit8_cases, auto simp: bit_simps simp flip: numeral_2_eq_2 numeral_3_eq_3 dest: bit_imp_le_length)

lemma sextet4_bound:
  fixes a b c :: "8 word"
  shows "c AND 63 < 64"
  unfolding masks
  by (rule lt64I, rule bit_word_eqI, drule bit8_cases, auto simp: bit_simps simp flip: numeral_2_eq_2 numeral_3_eq_3 dest: bit_imp_le_length)

lemma sextet3_rest_bound:
  fixes a b c :: "8 word"
  shows "push_bit 2 (b AND 15) < 64"
  unfolding masks
  by (rule lt64I, rule bit_word_eqI, drule bit8_cases, auto simp: bit_simps simp flip: numeral_2_eq_2 numeral_3_eq_3 dest: bit_imp_le_length)

lemma sextet2_rest_bound:
  fixes a b c :: "8 word"
  shows "push_bit 4 (a AND 3) < 64"
  unfolding masks
  by (rule lt64I, rule bit_word_eqI, drule bit8_cases, auto simp: bit_simps simp flip: numeral_2_eq_2 numeral_3_eq_3 dest: bit_imp_le_length)

text \<open>Putting the sextets together again gives the bytes back.\<close>

lemma regroup_first:
  fixes a b c :: "8 word"
  shows "push_bit 2 (drop_bit 2 a) OR drop_bit 4 (push_bit 4 (a AND 3) OR drop_bit 4 b) = a"
  unfolding masks
  by (rule bit_word_eqI, drule bit8_cases, auto simp: bit_simps simp flip: numeral_2_eq_2 numeral_3_eq_3 dest: bit_imp_le_length)

lemma regroup_second:
  fixes a b c :: "8 word"
  shows "push_bit 4 (push_bit 4 (a AND 3) OR drop_bit 4 b) OR drop_bit 2 (push_bit 2 (b AND 15) OR drop_bit 6 c) = b"
  unfolding masks
  by (rule bit_word_eqI, drule bit8_cases, auto simp: bit_simps simp flip: numeral_2_eq_2 numeral_3_eq_3 dest: bit_imp_le_length)

lemma regroup_third:
  fixes a b c :: "8 word"
  shows "push_bit 6 (push_bit 2 (b AND 15) OR drop_bit 6 c) OR (c AND 63) = c"
  unfolding masks
  by (rule bit_word_eqI, drule bit8_cases, auto simp: bit_simps simp flip: numeral_2_eq_2 numeral_3_eq_3 dest: bit_imp_le_length)

lemma regroup_second_rest:
  fixes a b c :: "8 word"
  shows "push_bit 4 (push_bit 4 (a AND 3) OR drop_bit 4 b) OR drop_bit 2 (push_bit 2 (b AND 15)) = b"
  unfolding masks
  by (rule bit_word_eqI, drule bit8_cases, auto simp: bit_simps simp flip: numeral_2_eq_2 numeral_3_eq_3 dest: bit_imp_le_length)

lemma regroup_first_rest:
  fixes a b c :: "8 word"
  shows "push_bit 2 (drop_bit 2 a) OR drop_bit 4 (push_bit 4 (a AND 3)) = a"
  unfolding masks
  by (rule bit_word_eqI, drule bit8_cases, auto simp: bit_simps simp flip: numeral_2_eq_2 numeral_3_eq_3 dest: bit_imp_le_length)

lemma base64url_roundtrip: "base64url_decode (base64url bs) = Some bs"
  by (induction bs rule: base64url.induct)
     (simp_all only: base64url.simps base64url_decode.simps append.simps
        dec6_enc6 sextet1_bound sextet2_bound sextet3_bound sextet4_bound
        sextet3_rest_bound sextet2_rest_bound regroup_first regroup_second regroup_third
        regroup_second_rest regroup_first_rest prod.case option.case)

lemma base64url_length: "length (base64url bs) = (4 * length bs + 2) div 3"
  by (induction bs rule: base64url.induct) simp_all

lemma base64url_chars: "set (base64url bs) \<subseteq> set base64url_alphabet"
  by (induction bs rule: base64url.induct)
     (simp_all only: base64url.simps append.simps list.set insert_subset empty_subsetI
        enc6_in_alphabet sextet1_bound sextet2_bound sextet3_bound sextet4_bound
        sextet3_rest_bound sextet2_rest_bound simp_thms)

text \<open>Test vectors: "foobar", "fo" and "f" of RFC 4648, and two bytes that need "-" and "_".\<close>

lemma base64url_test_vectors:
  "base64url [102, 111, 111, 98, 97, 114] = ''Zm9vYmFy''"
  "base64url [102, 111] = ''Zm8''"
  "base64url [102] = ''Zg''"
  "base64url [251, 255] = ''-_8''"
  by (simp_all add: enc6_def base64url_alphabet_def)

lemma demo_bytes:
  "map (\<lambda>k. entropy demo_world (entropy_drawn demo_world + k)) [0..<32]
     = [1, 8, 15, 22, 29, 36, 43, 50, 57, 64, 71, 78, 85, 92, 99, 106, 113, 120, 127, 134, 141,
        148, 155, 162, 169, 176, 183, 190, 197, 204, 211, 218]"
  by (simp add: demo_world_def upt_rec [of _ "numeral _"])

lemma demo_token_value:
  "base64url (map (\<lambda>k. entropy demo_world (entropy_drawn demo_world + k)) [0..<32]) = demo_token"
  unfolding demo_bytes by (simp add: enc6_def base64url_alphabet_def demo_token_def)

subsection \<open>What \<open>initiateValidationFlow\<close> returns\<close>

lemma initiateValidationFlow_id:
  "fst (fst (initiateValidationFlow uid srv tool args w))
     = uid @ '':'' @ srv @ '':'' @ tool @ '':'' @ number_to_string (clock w (clock_reads w))"
  by (simp add: initiateValidationFlow_def generateValidationId_def generateState_def
      randomBytes_def Date_now_def)

lemma initiateValidationFlow_metadata:
  "snd (fst (initiateValidationFlow uid srv tool args w))
     = \<lparr>userId = uid, serverName = srv, toolName = tool, toolArguments = args,
        state = base64url (map (\<lambda>k. entropy w (entropy_drawn w + k)) [0..<32]),
        timestamp = clock w (Suc (clock_reads w))\<rparr>"
  by (simp add: initiateValidationFlow_def generateValidationId_def generateState_def
      randomBytes_def Date_now_def)

lemma demo_clock:
  "clock demo_world (clock_reads demo_world) = 1700000000000"
  "clock demo_world (Suc (clock_reads demo_world)) = 1700000000001"
  by (simp_all add: demo_world_def)

subsection \<open>Prefixes that end in the separator\<close>

lemma colon_prefix_unique:
  "c \<notin> set u1 \<Longrightarrow> c \<notin> set u2 \<Longrightarrow> prefix (u2 @ [c]) (u1 @ c # rest) \<Longrightarrow> u2 = u1"
proof (induction u2 arbitrary: u1)
  case Nil
  then show ?case by (cases u1) auto
next
  case (Cons y ys)
  then show ?case by (cases u1) auto
qed

lemma generateValidationId_value:
  "fst (generateValidationId uid srv tool w)
     = uid @ '':'' @ srv @ '':'' @ tool @ '':'' @ number_to_string (clock w (clock_reads w))"
  by (simp add: generateValidationId_def Date_now_def)

subsection \<open>Managers\<close>

lemma recording_simps [simp]:
  "getFlowState (recording m) i t (s, log)
     = (fst (getFlowState m i t s), (snd (getFlowState m i t s), log @ [GetFlowState i t]))"
  "completeFlow (recording m) i t r (s, log)
     = (fst (completeFlow m i t r s), (snd (completeFlow m i t r s), log @ [CompleteFlow i t r]))"
  "failFlow (recording m) i t e (s, log)
     = (fst (failFlow m i t e s), (snd (failFlow m i t e s), log @ [FailFlow i t e]))"
  by (simp_all add: recording_def)

lemma stub_manager_simps [simp]:
  "getFlowState (stub_manager g c f) i t s = (g, s @ [GetFlowState i t])"
  "completeFlow (stub_manager g c f) i t r s = (c, s @ [CompleteFlow i t r])"
  "failFlow (stub_manager g c f) i t e s = (f, s @ [FailFlow i t e])"
  by (simp_all add: stub_manager_def)

lemma spec_manager_simps [simp]:
  "getFlowState spec_manager = spec_getFlowState"
  "completeFlow spec_manager = spec_completeFlow"
  "failFlow spec_manager = spec_failFlow"
  by (simp_all add: spec_manager_def)

subsection \<open>Replacing the state token a manager hands out\<close>

lemma with_state_token_simps [simp]:
  "completeFlow (with_state_token f m) = completeFlow m"
  "failFlow (with_state_token f m) = failFlow m"
  by (simp_all add: with_state_token_def)

lemma with_state_token_lookup:
  "getFlowState (with_state_token f m) i t s
     = (case getFlowState m i t s of
          (Inr (Some r), s1) \<Rightarrow>
            (Inr (Some (r\<lparr>metadata := (metadata r)\<lparr>state := f (state (metadata r))\<rparr>\<rparr>)), s1)
        | (x, s1) \<Rightarrow> (x, s1))"
  by (simp add: with_state_token_def)

lemma with_state_token_try:
  "completeValidationFlow_try vid (with_state_token f m) s = completeValidationFlow_try vid m s"
proof -
  obtain r s1 where g: "getFlowState m vid FLOW_TYPE s = (r, s1)"
    by (cases "getFlowState m vid FLOW_TYPE s")
  show ?thesis
  proof (cases r)
    case (Inl e)
    with g show ?thesis
      by (simp add: completeValidationFlow_try_def with_state_token_lookup)
  next
    case (Inr found)
    with g show ?thesis
      by (cases found) (simp_all add: completeValidationFlow_try_def with_state_token_lookup)
  qed
qed

lemma with_state_token_complete:
  "completeValidationFlow vid (with_state_token f m) s = completeValidationFlow vid m s"
  by (simp add: completeValidationFlow_def with_state_token_try
      cong: prod.case_cong sum.case_cong)

lemma with_state_token_confirm:
  "post_validation_confirm req (with_state_token f m) s = post_validation_confirm req m s"
proof -
  obtain r s1 where g: "getFlowState m (validationId req) FLOW_TYPE s = (r, s1)"
    by (cases "getFlowState m (validationId req) FLOW_TYPE s")
  show ?thesis
  proof (cases r)
    case (Inl e)
    with g show ?thesis
      by (simp add: post_validation_confirm_def handler_getFlowState_def with_state_token_lookup)
  next
    case (Inr found)
    with g show ?thesis
      by (cases found)
         (simp_all add: post_validation_confirm_def handler_getFlowState_def
            with_state_token_lookup with_state_token_complete)
  qed
qed

lemma with_state_token_status:
  "get_validation_status req (with_state_token f m) s = get_validation_status req m s"
proof -
  obtain r s1 where g: "getFlowState m (validationId req) ''mcp_tool_validation'' s = (r, s1)"
    by (cases "getFlowState m (validationId req) ''mcp_tool_validation'' s")
  show ?thesis
  proof (cases r)
    case (Inl e)
    with g show ?thesis
      by (simp add: get_validation_status_def with_state_token_lookup)
  next
    case (Inr found)
    with g show ?thesis
      by (cases found) (simp_all add: get_validation_status_def with_state_token_lookup)
  qed
qed

subsection \<open>Stores that differ only in state tokens\<close>

lemma differ_only_in_state_fields:
  assumes "differ_only_in_state r r'"
  shows "status r' = status r" and "error r' = error r" and "expiresAt r' = expiresAt r"
proof -
  from assms have eq: "r' = r\<lparr>metadata := (metadata r)\<lparr>state := state (metadata r')\<rparr>\<rparr>"
    by (simp add: differ_only_in_state_def)
  show "status r' = status r" by (subst eq) simp
  show "error r' = error r" by (subst eq) simp
  show "expiresAt r' = expiresAt r" by (subst eq) simp
qed

lemma map_of_differ:
  assumes "list_all2 (\<lambda>kv kv'. fst kv = fst kv' \<and> differ_only_in_state (snd kv) (snd kv')) xs ys"
  shows "rel_option differ_only_in_state (map_of xs k) (map_of ys k)"
  using assms
proof (induction rule: list_all2_induct)
  case Nil
  then show ?case by simp
next
  case (Cons x xs y ys)
  then show ?case by (cases x; cases y) auto
qed

lemma store_get_differ:
  assumes "stores_differ_only_in_state st st'"
  shows "rel_option differ_only_in_state (store_get st i t) (store_get st' i t)"
proof -
  from assms have tm: "time st = time st'"
    and rel: "rel_option differ_only_in_state (map_of (records st) (i, t)) (map_of (records st') (i, t))"
    by (simp_all add: stores_differ_only_in_state_def map_of_differ)
  from rel show ?thesis
  proof (cases rule: option.rel_cases)
    case None
    then show ?thesis by (simp add: store_get_def)
  next
    case (Some r r')
    then show ?thesis
      using tm differ_only_in_state_fields(3) [of r r'] by (simp add: store_get_def)
  qed
qed

lemma spec_manager_token_independent:
  assumes "stores_differ_only_in_state st st'"
  shows "fst (post_validation_confirm req spec_manager st) = fst (post_validation_confirm req spec_manager st')"
    and "fst (get_validation_status req spec_manager st) = fst (get_validation_status req spec_manager st')"
proof -
  have rel: "rel_option differ_only_in_state
          (store_get st (validationId req) ''mcp_tool_validation'')
          (store_get st' (validationId req) ''mcp_tool_validation'')"
    using assms by (rule store_get_differ)
  from rel show "fst (post_validation_confirm req spec_manager st) = fst (post_validation_confirm req spec_manager st')"
  proof (cases rule: option.rel_cases)
    case None
    then show ?thesis
      by (simp add: post_validation_confirm_def handler_getFlowState_def
          spec_getFlowState_def FLOW_TYPE_def)
  next
    case (Some r r')
    then show ?thesis
      using differ_only_in_state_fields [of r r']
      by (simp add: post_validation_confirm_def handler_getFlowState_def
          completeValidationFlow_def completeValidationFlow_try_def
          spec_getFlowState_def spec_completeFlow_def spec_failFlow_def FLOW_TYPE_def)
  qed
  from rel show "fst (get_validation_status req spec_manager st) = fst (get_validation_status req spec_manager st')"
  proof (cases rule: option.rel_cases)
    case None
    then show ?thesis
      by (simp add: get_validation_status_def spec_getFlowState_def)
  next
    case (Some r r')
    then show ?thesis
      using differ_only_in_state_fields [of r r']
      by (simp add: get_validation_status_def spec_getFlowState_def)
  qed
qed

subsection \<open>The handler functions alone\<close>

text \<open>
  What the status handler function answers when it is run: the object of the
  record's status, its two flags and its error for a record, 404 for none.
\<close>

lemma status_response_shape:
  "(getFlowState m (validationId req) ''mcp_tool_validation'' s = (Inr (Some flowState), s1)
      \<longrightarrow> get_validation_status req m s
          = (Json 200 (StatusBody (status flowState) (status flowState = COMPLETED)
                         (status flowState = FAILED) (error flowState)), s1))
   \<and> (getFlowState m (validationId req) ''mcp_tool_validation'' s = (Inr None, s1)
      \<longrightarrow> get_validation_status req m s = (Json 404 (ErrorBody ''Validation flow not found''), s1))"
  by (simp add: get_validation_status_def)

lemma status_response_shape_witness:
  "get_validation_status demo_request spec_manager (demo_store ''tok'')
     = (Json 200 (StatusBody PENDING False False None), demo_store ''tok'')
   \<and> get_validation_status demo_request spec_manager (flow_store demo_world)
     = (Json 404 (ErrorBody ''Validation flow not found''), flow_store demo_world)
   \<and> fst (get_validation_status demo_request spec_manager
          (snd (post_validation_confirm demo_request spec_manager (demo_store ''tok''))))
     = Json 200 (StatusBody COMPLETED True False None)"
  using status_response_shape
    [where req = demo_request and m = spec_manager and s = "demo_store ''tok''"
       and flowState = "demo_record ''tok''" and ?s1.0 = "demo_store ''tok''"]
    status_response_shape
    [where req = demo_request and m = spec_manager and s = "flow_store demo_world"
       and ?s1.0 = "flow_store demo_world"]
  by (simp add: spec_getFlowState_def store_get_def
      demo_world_def demo_request_def demo_store_def demo_record_def
      post_validation_confirm_def handler_getFlowState_def completeValidationFlow_def
      completeValidationFlow_try_def spec_completeFlow_def store_put_def FLOW_TYPE_def
      get_validation_status_def)

text \<open>
  What the confirm handler function does when it is run and the metadata lookup
  returns null: it answers 404 and its only call on the manager is that lookup.
\<close>

lemma confirm_not_found_mutation_free:
  "(handler_getFlowState (validationId req) m s = (Inr None, s1)
      \<longrightarrow> post_validation_confirm req m s = (Json 404 (ErrorBody ''Validation flow not found''), s1)
        \<and> post_validation_confirm req (recording m) (s, [])
            = (Json 404 (ErrorBody ''Validation flow not found''),
               (s1, [GetFlowState (validationId req) FLOW_TYPE])))
   \<and> (handler_getFlowState (validationId req) spec_manager st = (Inr None, st1)
      \<longrightarrow> post_validation_confirm req spec_manager st
            = (Json 404 (ErrorBody ''Validation flow not found''), st))"
  by (auto simp: post_validation_confirm_def handler_getFlowState_def
      spec_getFlowState_def split: prod.splits sum.splits option.splits)

lemma confirm_not_found_mutation_free_witness:
  "post_validation_confirm demo_request (recording spec_manager) (flow_store demo_world, [])
     = (Json 404 (ErrorBody ''Validation flow not found''),
        (flow_store demo_world, [GetFlowState ''u1:srv:tool:1700000000000'' ''mcp_tool_validation'']))
   \<and> post_validation_confirm demo_request spec_manager (flow_store demo_world)
     = (Json 404 (ErrorBody ''Validation flow not found''), flow_store demo_world)"
  using confirm_not_found_mutation_free
    [where req = demo_request and m = spec_manager and s = "flow_store demo_world"
       and ?s1.0 = "flow_store demo_world" and st = "flow_store demo_world"
       and ?st1.0 = "flow_store demo_world"]
  by (simp add: handler_getFlowState_def spec_getFlowState_def store_get_def
      demo_world_def demo_request_def FLOW_TYPE_def)

subsection \<open>The routes stop at the guard\<close>

lemma route_guard_stage:
  "route guard_stage handler req m s = (validationIDUserGuard req, s)"
  by (simp add: route_def guard_stage_def)

lemma endpoints_stop_at_guard:
  "status_endpoint req m s = (validationIDUserGuard req, s)"
  "confirm_endpoint req m s = (validationIDUserGuard req, s)"
  by (simp_all add: status_endpoint_def confirm_endpoint_def route_guard_stage)

section \<open>The claims\<close>

subsection \<open>Starting a flow\<close>

text \<open>
  C1, as the code has it. \<open>initiateValidationFlow\<close> takes no flow manager and calls no
  \<open>createFlow\<close>: whatever the input, its only effects are two clock reads and the
  draw of 32 random bytes, and the flow store after the call is the flow store
  before it, so the call registers no record. The class declares the flow-type tag
  "mcp_tool_validation" and the TTL of 600000 ms, and \<open>initiateValidationFlow\<close> uses
  neither.
\<close>

theorem initiateValidationFlow_leaves_store:
  "snd (initiateValidationFlow uid srv tool args w)
     = w\<lparr>clock_reads := clock_reads w + 2, entropy_drawn := entropy_drawn w + 32\<rparr>
   \<and> flow_store (snd (initiateValidationFlow uid srv tool args w)) = flow_store w
   \<and> FLOW_TYPE = ''mcp_tool_validation'' \<and> FLOW_TTL = 600000"
  by (simp add: initiateValidationFlow_def generateValidationId_def generateState_def
      randomBytes_def Date_now_def FLOW_TYPE_def FLOW_TTL_def)

text \<open>
  C1 as stated fails: after \<open>initiateValidationFlow("u1", "srv", "tool", {a: 1})\<close> on an
  empty store, the store holds no record under the derived validationId.
\<close>

theorem initiateValidationFlow_registers_nothing:
  "fst (fst (initiateValidationFlow ''u1'' ''srv'' ''tool'' [(''a'', 1)] demo_world))
     = ''u1:srv:tool:1700000000000''
   \<and> store_get (flow_store (snd (initiateValidationFlow ''u1'' ''srv'' ''tool'' [(''a'', 1)] demo_world)))
         ''u1:srv:tool:1700000000000'' ''mcp_tool_validation'' = None"
  by (simp add: initiateValidationFlow_def generateValidationId_def generateState_def
      randomBytes_def Date_now_def demo_world_def store_get_def
      number_to_string_def digits_of.simps digit_char_def)

text \<open>
  C2, as the code has it. The validationId generated for user u1 always passes the
  ownership check \<open>startsWith(u1 + ":")\<close> of its owner. When neither u1 nor another
  user id u2 contains the separator ":", it does not pass the check
  \<open>startsWith(u2 + ":")\<close> of that other user, whatever serverName and toolName are
  (they may contain the separator).
\<close>

theorem owner_prefix_unique_without_colon:
  "startsWith (fst (generateValidationId u1 srv tool w)) (u1 @ '':'')
   \<and> (CHR '':'' \<notin> set u1 \<and> CHR '':'' \<notin> set u2 \<and> u2 \<noteq> u1
      \<longrightarrow> \<not> startsWith (fst (generateValidationId u1 srv tool w)) (u2 @ '':''))"
  using colon_prefix_unique [of "CHR '':''" u1 u2]
  by (auto simp: generateValidationId_value startsWith_def)

theorem owner_prefix_unique_without_colon_witness:
  "startsWith (fst (generateValidationId ''u1'' ''s:rv'' ''to:ol'' demo_world)) (''u1'' @ '':'')
   \<and> \<not> startsWith (fst (generateValidationId ''u1'' ''s:rv'' ''to:ol'' demo_world)) (''u'' @ '':'')
   \<and> \<not> startsWith (fst (generateValidationId ''u1'' ''s:rv'' ''to:ol'' demo_world)) (''u12'' @ '':'')"
  using owner_prefix_unique_without_colon [of "''u1''" "''s:rv''" "''to:ol''" demo_world "''u''"]
    owner_prefix_unique_without_colon [of "''u1''" "''s:rv''" "''to:ol''" demo_world "''u12''"]
  by simp

text \<open>
  C2 as stated fails when a user id contains the separator: the id generated for user
  "a:b" passes the check of the other user "a", and the id generated for user "a" on
  server "srv" passes the check of the other user "a:srv".
\<close>

theorem owner_prefix_ambiguous_with_colon:
  "''a'' \<noteq> ''a:b''
   \<and> startsWith (fst (generateValidationId ''a:b'' ''srv'' ''tool'' demo_world)) (''a'' @ '':'')
   \<and> ''a:srv'' \<noteq> ''a''
   \<and> startsWith (fst (generateValidationId ''a'' ''srv'' ''tool'' demo_world)) (''a:srv'' @ '':'')"
  by (simp add: generateValidationId_value startsWith_def)

text \<open>
  C3. The validationId returned by \<open>initiateValidationFlow\<close> is userId, serverName,
  toolName and the rendering of the clock value read at that moment, joined by ":";
  in particular it starts with the userId followed by ":". For a clock value that is
  not negative, as unix milliseconds are, the rendering is the decimal numeral of the
  value: only the digits 0 to 9, with the value as its decimal reading, and no leading
  zero (the value 0 is "0"). With the clock at 1700000000000 the id of
  ("u1", "srv", "tool") is "u1:srv:tool:1700000000000".
\<close>

theorem validationId_format:
  "fst (fst (initiateValidationFlow uid srv tool args w))
     = uid @ '':'' @ srv @ '':'' @ tool @ '':'' @ number_to_string (clock w (clock_reads w))
   \<and> startsWith (fst (fst (initiateValidationFlow uid srv tool args w))) (uid @ '':'')
   \<and> (0 \<le> clock w (clock_reads w) \<longrightarrow>
        list_all (\<lambda>ch. ch \<in> set ''0123456789'') (number_to_string (clock w (clock_reads w)))
        \<and> decimal_value (number_to_string (clock w (clock_reads w))) = nat (clock w (clock_reads w)))
   \<and> (0 < clock w (clock_reads w) \<longrightarrow> hd (number_to_string (clock w (clock_reads w))) \<noteq> CHR ''0'')
   \<and> number_to_string 0 = ''0''
   \<and> fst (fst (initiateValidationFlow ''u1'' ''srv'' ''tool'' args demo_world))
       = ''u1:srv:tool:1700000000000''"
  by (simp add: initiateValidationFlow_id demo_clock number_to_string_examples startsWith_def
      number_to_string_nonneg digits_of_all_digits digits_of_no_leading_zero
      decimal_value_digits_of del: set_simps)

theorem validationId_format_witness:
  "fst (fst (initiateValidationFlow ''u7'' ''files'' ''read'' [(''a'', 1 :: int)] demo_world))
     = ''u7:files:read:1700000000000''
   \<and> list_all (\<lambda>ch. ch \<in> set ''0123456789'') ''1700000000000''
   \<and> decimal_value ''1700000000000'' = 1700000000000
   \<and> hd ''1700000000000'' \<noteq> CHR ''0''"
  using validationId_format [of "''u7''" "''files''" "''read''" "[(''a'', 1 :: int)]" demo_world]
  by (simp add: demo_clock number_to_string_examples del: set_simps)

text \<open>
  C4. The metadata returned by \<open>initiateValidationFlow\<close> is the record of the four
  arguments, the state token and the timestamp, and nothing else. The token is the
  base64url encoding of the next 32 bytes of the world's entropy, the bytes at
  positions \<open>entropy_drawn\<close> to \<open>entropy_drawn + 31\<close>: it decodes to exactly these
  32 bytes, has 43 characters, all of them letters, digits, "-" or "_" (so no
  padding). The timestamp is the value of the second clock read of the call. In the
  demo world, whose next bytes are 1, 8, 15, ..., 218 and whose second clock read
  gives 1700000000001, the token is "AQgPFh0kKzI5QEdOVVxjanF4f4aNlJuiqbC3vsXM09o",
  which decodes to these bytes.
\<close>

theorem flowMetadata_contents:
  "snd (fst (initiateValidationFlow uid srv tool args w))
     = \<lparr>userId = uid, serverName = srv, toolName = tool, toolArguments = args,
        state = base64url (map (\<lambda>k. entropy w (entropy_drawn w + k)) [0..<32]),
        timestamp = clock w (Suc (clock_reads w))\<rparr>
   \<and> length (map (\<lambda>k. entropy w (entropy_drawn w + k)) [0..<32]) = 32
   \<and> base64url_decode (state (snd (fst (initiateValidationFlow uid srv tool args w))))
       = Some (map (\<lambda>k. entropy w (entropy_drawn w + k)) [0..<32])
   \<and> length (state (snd (fst (initiateValidationFlow uid srv tool args w)))) = 43
   \<and> set (state (snd (fst (initiateValidationFlow uid srv tool args w))))
       \<subseteq> set ''ABCDEFGHIJKLMNOPQRSTUVWXYZabcdefghijklmnopqrstuvwxyz0123456789-_''
   \<and> state (snd (fst (initiateValidationFlow uid srv tool args demo_world)))
       = ''AQgPFh0kKzI5QEdOVVxjanF4f4aNlJuiqbC3vsXM09o''
   \<and> base64url_decode ''AQgPFh0kKzI5QEdOVVxjanF4f4aNlJuiqbC3vsXM09o''
       = Some [1, 8, 15, 22, 29, 36, 43, 50, 57, 64, 71, 78, 85, 92, 99, 106, 113, 120, 127, 134,
               141, 148, 155, 162, 169, 176, 183, 190, 197, 204, 211, 218]
   \<and> timestamp (snd (fst (initiateValidationFlow uid srv tool args demo_world))) = 1700000000001"
proof -
  have dec: "base64url_decode ''AQgPFh0kKzI5QEdOVVxjanF4f4aNlJuiqbC3vsXM09o''
       = Some [1, 8, 15, 22, 29, 36, 43, 50, 57, 64, 71, 78, 85, 92, 99, 106, 113, 120, 127, 134,
               141, 148, 155, 162, 169, 176, 183, 190, 197, 204, 211, 218]"
    using base64url_roundtrip
      [of "map (\<lambda>k. entropy demo_world (entropy_drawn demo_world + k)) [0..<32]"]
    unfolding demo_token_value unfolding demo_bytes demo_token_def .
  have chars: "set (base64url bs) \<subseteq> set ''ABCDEFGHIJKLMNOPQRSTUVWXYZabcdefghijklmnopqrstuvwxyz0123456789-_''" for bs
    using base64url_chars [of bs] by (simp only: base64url_alphabet_def)
  have tok: "base64url (map (\<lambda>k. entropy demo_world (entropy_drawn demo_world + k)) [0..<32])
       = ''AQgPFh0kKzI5QEdOVVxjanF4f4aNlJuiqbC3vsXM09o''"
    using demo_token_value by (simp only: demo_token_def)
  show ?thesis
    by (simp only: initiateValidationFlow_metadata tok dec demo_clock chars base64url_roundtrip
        base64url_length FlowMetadata.simps length_map length_upt simp_thms) simp
qed

subsection \<open>Completing a flow\<close>

text \<open>
  C5, as the code has it. When the lookup or \<open>completeFlow\<close> throws an error inside
  \<open>completeValidationFlow\<close>, the handler calls \<open>failFlow\<close> with that error, whatever
  that call then does: the calls made on the manager are the lookup, \<open>completeFlow\<close>
  if the lookup returned a flow, and last \<open>failFlow\<close> on (validationId,
  "mcp_tool_validation") with the error, and the manager's state is the state that
  \<open>failFlow\<close> call leaves. When that \<open>failFlow\<close> call returns normally, the handler
  throws the original error to its caller.
\<close>

theorem failFlow_then_rethrow:
  "(getFlowState m vid FLOW_TYPE s = (Inl err, s1)
      \<longrightarrow> snd (completeValidationFlow vid (recording m) (s, []))
            = (snd (failFlow m vid FLOW_TYPE err s1),
               [GetFlowState vid FLOW_TYPE, FailFlow vid FLOW_TYPE err])
        \<and> (failFlow m vid FLOW_TYPE err s1 = (Inr u, s2)
            \<longrightarrow> completeValidationFlow vid m s = (Inl err, s2)))
   \<and> (getFlowState m vid FLOW_TYPE s = (Inr (Some flowState), s0)
        \<and> completeFlow m vid FLOW_TYPE True s0 = (Inl err, s1)
      \<longrightarrow> snd (completeValidationFlow vid (recording m) (s, []))
            = (snd (failFlow m vid FLOW_TYPE err s1),
               [GetFlowState vid FLOW_TYPE, CompleteFlow vid FLOW_TYPE True,
                FailFlow vid FLOW_TYPE err])
        \<and> (failFlow m vid FLOW_TYPE err s1 = (Inr u, s2)
            \<longrightarrow> completeValidationFlow vid m s = (Inl err, s2)))"
  by (auto simp: completeValidationFlow_def completeValidationFlow_try_def
      split: prod.splits sum.splits)

theorem failFlow_then_rethrow_witness:
  "completeValidationFlow ''u1:srv:tool:1700000000000''
      (stub_manager (Inl (ManagerError StorageFailure)) (Inr ()) (Inr ()) :: (call list, unit) FlowStateManager) []
     = (Inl (ManagerError StorageFailure),
        [GetFlowState ''u1:srv:tool:1700000000000'' ''mcp_tool_validation'',
         FailFlow ''u1:srv:tool:1700000000000'' ''mcp_tool_validation'' (ManagerError StorageFailure)])
   \<and> completeValidationFlow ''u1:srv:tool:1700000000000''
      (stub_manager (Inr (Some (demo_record ''tok''))) (Inl (ManagerError InvalidTransition)) (Inr ())) []
     = (Inl (ManagerError InvalidTransition),
        [GetFlowState ''u1:srv:tool:1700000000000'' ''mcp_tool_validation'',
         CompleteFlow ''u1:srv:tool:1700000000000'' ''mcp_tool_validation'' True,
         FailFlow ''u1:srv:tool:1700000000000'' ''mcp_tool_validation'' (ManagerError InvalidTransition)])
   \<and> snd (snd (completeValidationFlow ''u1:srv:tool:1700000000000''
      (recording (stub_manager (Inl (ManagerError StorageFailure)) (Inr ()) (Inl (ManagerError NotFound))
         :: (call list, unit) FlowStateManager)) ([], [])))
     = [GetFlowState ''u1:srv:tool:1700000000000'' ''mcp_tool_validation'',
        FailFlow ''u1:srv:tool:1700000000000'' ''mcp_tool_validation'' (ManagerError StorageFailure)]"
  using failFlow_then_rethrow
    [where m = "stub_manager (Inr (Some (demo_record ''tok''))) (Inl (ManagerError InvalidTransition)) (Inr ())"
       and vid = "''u1:srv:tool:1700000000000''" and s = "[]" and err = "ManagerError InvalidTransition"
       and flowState = "demo_record ''tok''"
       and ?s0.0 = "[GetFlowState ''u1:srv:tool:1700000000000'' ''mcp_tool_validation'']"
       and ?s1.0 = "[GetFlowState ''u1:srv:tool:1700000000000'' ''mcp_tool_validation'',
                  CompleteFlow ''u1:srv:tool:1700000000000'' ''mcp_tool_validation'' True]"
       and u = "()"
       and ?s2.0 = "[GetFlowState ''u1:srv:tool:1700000000000'' ''mcp_tool_validation'',
                  CompleteFlow ''u1:srv:tool:1700000000000'' ''mcp_tool_validation'' True,
                  FailFlow ''u1:srv:tool:1700000000000'' ''mcp_tool_validation'' (ManagerError InvalidTransition)]"]
    failFlow_then_rethrow
    [where m = "stub_manager (Inl (ManagerError StorageFailure)) (Inr ()) (Inr ()) :: (call list, unit) FlowStateManager"
       and vid = "''u1:srv:tool:1700000000000''" and s = "[]" and err = "ManagerError StorageFailure"
       and ?s1.0 = "[GetFlowState ''u1:srv:tool:1700000000000'' ''mcp_tool_validation'']"
       and u = "()"
       and ?s2.0 = "[GetFlowState ''u1:srv:tool:1700000000000'' ''mcp_tool_validation'',
                  FailFlow ''u1:srv:tool:1700000000000'' ''mcp_tool_validation'' (ManagerError StorageFailure)]"]
    failFlow_then_rethrow
    [where m = "stub_manager (Inl (ManagerError StorageFailure)) (Inr ()) (Inl (ManagerError NotFound)) :: (call list, unit) FlowStateManager"
       and vid = "''u1:srv:tool:1700000000000''" and s = "[]" and err = "ManagerError StorageFailure"
       and ?s1.0 = "[GetFlowState ''u1:srv:tool:1700000000000'' ''mcp_tool_validation'']"]
  by (simp add: FLOW_TYPE_def)

text \<open>
  C5 as stated fails when \<open>failFlow\<close> itself throws: with a manager whose lookup
  throws StorageFailure and whose \<open>failFlow\<close> throws InvalidTransition, the caller
  gets InvalidTransition, the error of \<open>failFlow\<close>, and not the original one.
\<close>

theorem failFlow_error_replaces_original:
  "completeValidationFlow ''u1:srv:tool:1700000000000''
      (stub_manager (Inl (ManagerError StorageFailure)) (Inr ()) (Inl (ManagerError InvalidTransition)) :: (call list, unit) FlowStateManager) []
     = (Inl (ManagerError InvalidTransition),
        [GetFlowState ''u1:srv:tool:1700000000000'' ''mcp_tool_validation'',
         FailFlow ''u1:srv:tool:1700000000000'' ''mcp_tool_validation'' (ManagerError StorageFailure)])
   \<and> ManagerError InvalidTransition \<noteq> ManagerError StorageFailure"
  by (simp add: completeValidationFlow_def completeValidationFlow_try_def FLOW_TYPE_def)

text \<open>
  C9, as the code has it. Every error exit of \<open>completeValidationFlow\<close> comes after a
  \<open>failFlow\<close> call: when the call ends in an error, the last call made on the manager
  is a \<open>failFlow\<close> on (validationId, "mcp_tool_validation"). On the not-found path,
  where the lookup returns no flow, the calls are exactly the lookup and then
  \<open>failFlow\<close> on that same key with the error "Validation flow not found", whatever
  that call then does, and the manager's state is the state it leaves. When that
  \<open>failFlow\<close> call returns normally, the handler throws "Validation flow not found".
\<close>

theorem not_found_path_calls_failFlow:
  "(isl (fst (completeValidationFlow vid (recording m) (s, [])))
      \<longrightarrow> (\<exists>e. last (snd (snd (completeValidationFlow vid (recording m) (s, []))))
                = FailFlow vid FLOW_TYPE e))
   \<and> (getFlowState m vid FLOW_TYPE s = (Inr None, s1)
      \<longrightarrow> snd (completeValidationFlow vid (recording m) (s, []))
            = (snd (failFlow m vid FLOW_TYPE (Error ''Validation flow not found'') s1),
               [GetFlowState vid FLOW_TYPE,
                FailFlow vid FLOW_TYPE (Error ''Validation flow not found'')])
        \<and> (failFlow m vid FLOW_TYPE (Error ''Validation flow not found'') s1 = (Inr u, s2)
            \<longrightarrow> completeValidationFlow vid m s = (Inl (Error ''Validation flow not found''), s2)))"
  by (auto simp: completeValidationFlow_def completeValidationFlow_try_def
      split: prod.splits sum.splits option.splits)

theorem not_found_path_calls_failFlow_witness:
  "completeValidationFlow ''u1:srv:tool:1700000000000''
      (stub_manager (Inr None) (Inr ()) (Inr ()) :: (call list, unit) FlowStateManager) []
     = (Inl (Error ''Validation flow not found''),
        [GetFlowState ''u1:srv:tool:1700000000000'' ''mcp_tool_validation'',
         FailFlow ''u1:srv:tool:1700000000000'' ''mcp_tool_validation'' (Error ''Validation flow not found'')])
   \<and> snd (snd (completeValidationFlow ''u1:srv:tool:1700000000000''
      (recording (stub_manager (Inr None) (Inr ()) (Inr ()) :: (call list, unit) FlowStateManager)) ([], [])))
     = [GetFlowState ''u1:srv:tool:1700000000000'' ''mcp_tool_validation'',
        FailFlow ''u1:srv:tool:1700000000000'' ''mcp_tool_validation'' (Error ''Validation flow not found'')]"
  using not_found_path_calls_failFlow
    [where m = "stub_manager (Inr None) (Inr ()) (Inr ()) :: (call list, unit) FlowStateManager"
       and vid = "''u1:srv:tool:1700000000000''" and s = "[]" and u = "()"
       and ?s1.0 = "[GetFlowState ''u1:srv:tool:1700000000000'' ''mcp_tool_validation'']"
       and ?s2.0 = "[GetFlowState ''u1:srv:tool:1700000000000'' ''mcp_tool_validation'',
                  FailFlow ''u1:srv:tool:1700000000000'' ''mcp_tool_validation'' (Error ''Validation flow not found'')]"]
  by (simp add: FLOW_TYPE_def)

text \<open>
  C9 as stated fails where \<open>failFlow\<close> throws on the missing key, as the failFlow of
  the specification does: the handler calls \<open>failFlow\<close> and the caller then gets
  NotFound, the error of \<open>failFlow\<close>; "Validation flow not found" is not re-thrown.
\<close>

theorem failFlow_error_hides_not_found:
  "completeValidationFlow ''u1:srv:tool:1700000000000'' (recording spec_manager) (flow_store demo_world, [])
     = (Inl (ManagerError NotFound),
        (flow_store demo_world,
         [GetFlowState ''u1:srv:tool:1700000000000'' ''mcp_tool_validation'',
          FailFlow ''u1:srv:tool:1700000000000'' ''mcp_tool_validation'' (Error ''Validation flow not found'')]))
   \<and> completeValidationFlow ''u1:srv:tool:1700000000000''
      (stub_manager (Inr None) (Inr ()) (Inl (ManagerError NotFound)) :: (call list, unit) FlowStateManager) []
     = (Inl (ManagerError NotFound),
        [GetFlowState ''u1:srv:tool:1700000000000'' ''mcp_tool_validation'',
         FailFlow ''u1:srv:tool:1700000000000'' ''mcp_tool_validation'' (Error ''Validation flow not found'')])
   \<and> ManagerError NotFound \<noteq> Error ''Validation flow not found''"
  by (simp add: completeValidationFlow_def completeValidationFlow_try_def FLOW_TYPE_def
      spec_getFlowState_def spec_failFlow_def store_get_def demo_world_def)

subsection \<open>The guard\<close>

text \<open>
  C6. The guard distinguishes its two failure modes. A request without an
  authenticated user id (no user, no id, or the empty id, which JavaScript treats as
  absent) is answered 401 "User not authenticated"; a request with an id whose
  validationId does not start with the id followed by a colon is answered 403
  "Access denied"; the two responses differ; and a request with an id whose
  validationId starts with the id followed by a colon gets no response from the guard.
\<close>

theorem guard_401_403_distinct:
  "(user req = None \<or> user_id req = None \<or> user_id req = Some []
      \<longrightarrow> validationIDUserGuard req = Some (Json 401 (ErrorBody ''User not authenticated'')))
   \<and> (user_id req = Some uid \<and> uid \<noteq> [] \<and> \<not> prefix (uid @ '':'') (validationId req)
        \<longrightarrow> validationIDUserGuard req = Some (Json 403 (ErrorBody ''Access denied'')))
   \<and> Json 401 (ErrorBody ''User not authenticated'') \<noteq> Json 403 (ErrorBody ''Access denied'')
   \<and> (user_id req = Some uid \<and> uid \<noteq> [] \<and> prefix (uid @ '':'') (validationId req)
        \<longrightarrow> validationIDUserGuard req = None)"
  by (auto simp: validationIDUserGuard_def user_id_def startsWith_def)

theorem guard_401_403_distinct_witness:
  "validationIDUserGuard \<lparr>user = None, validationId = ''u1:srv:tool:1700000000000''\<rparr>
     = Some (Json 401 (ErrorBody ''User not authenticated''))
   \<and> validationIDUserGuard \<lparr>user = Some \<lparr>id' = Some ''u2''\<rparr>, validationId = ''u1:srv:tool:1700000000000''\<rparr>
     = Some (Json 403 (ErrorBody ''Access denied''))
   \<and> validationIDUserGuard \<lparr>user = Some \<lparr>id' = Some ''u1''\<rparr>, validationId = ''u1:srv:tool:1700000000000''\<rparr>
     = None"
  using guard_401_403_distinct [of "\<lparr>user = None, validationId = ''u1:srv:tool:1700000000000''\<rparr>" "''u1''"]
        guard_401_403_distinct [of "\<lparr>user = Some \<lparr>id' = Some ''u2''\<rparr>, validationId = ''u1:srv:tool:1700000000000''\<rparr>" "''u2''"]
        guard_401_403_distinct [of "\<lparr>user = Some \<lparr>id' = Some ''u1''\<rparr>, validationId = ''u1:srv:tool:1700000000000''\<rparr>" "''u1''"]
  by (simp add: user_id_def)

subsection \<open>The routes\<close>

text \<open>
  C8. The state token reaches no response. Whatever manager the two handlers run
  on, replacing the state token in the records it hands out changes neither
  the response nor the manager's state; and on the manager of the specification, two
  stores that differ only in the state tokens of their records give the same
  response from the confirm handler and the same response from the status handler.
\<close>

theorem responses_independent_of_state_token:
  "post_validation_confirm req (with_state_token f m) s = post_validation_confirm req m s
   \<and> get_validation_status req (with_state_token f m) s = get_validation_status req m s
   \<and> (stores_differ_only_in_state st st'
      \<longrightarrow> fst (post_validation_confirm req spec_manager st)
            = fst (post_validation_confirm req spec_manager st')
        \<and> fst (get_validation_status req spec_manager st)
            = fst (get_validation_status req spec_manager st'))"
  by (simp add: with_state_token_confirm with_state_token_status spec_manager_token_independent)

theorem responses_independent_of_state_token_witness:
  "stores_differ_only_in_state (demo_store ''tokenA'') (demo_store ''tokenB'')
   \<and> demo_store ''tokenA'' \<noteq> demo_store ''tokenB''
   \<and> fst (post_validation_confirm demo_request spec_manager (demo_store ''tokenA'')) = Json 200 SuccessBody
   \<and> fst (post_validation_confirm demo_request spec_manager (demo_store ''tokenB'')) = Json 200 SuccessBody
   \<and> fst (get_validation_status demo_request spec_manager (demo_store ''tokenA''))
     = fst (get_validation_status demo_request spec_manager (demo_store ''tokenB''))"
proof -
  have h: "stores_differ_only_in_state (demo_store ''tokenA'') (demo_store ''tokenB'')"
    by (simp add: stores_differ_only_in_state_def differ_only_in_state_def demo_store_def demo_record_def)
  have ne: "demo_store ''tokenA'' \<noteq> demo_store ''tokenB''"
    by (simp add: demo_store_def demo_record_def)
  have a: "fst (post_validation_confirm demo_request spec_manager (demo_store ''tokenA'')) = Json 200 SuccessBody"
    by (simp add: post_validation_confirm_def handler_getFlowState_def completeValidationFlow_def
        completeValidationFlow_try_def spec_getFlowState_def spec_completeFlow_def store_get_def
        store_put_def FLOW_TYPE_def demo_store_def demo_record_def demo_request_def)
  show ?thesis
    using h ne a
      responses_independent_of_state_token
        [where st = "demo_store ''tokenA''" and st' = "demo_store ''tokenB''" and req = demo_request
           and m = spec_manager and s = "demo_store ''tokenA''" and f = "\<lambda>tok. tok"]
    by simp
qed

text \<open>
  C7. The status endpoint does not answer as claimed. A request of the authenticated
  owner passes the guard, which sends nothing and does not call \<open>next()\<close>, so the
  handler function is never run: no call is made on the manager and no response is
  sent, where the handler function alone would answer 200 with the status object for
  a stored record and 404 for none.
\<close>

theorem status_endpoint_never_reaches_handler:
  "validationIDUserGuard demo_request = None
   \<and> fst (get_validation_status demo_request spec_manager (demo_store ''tok''))
       = Json 200 (StatusBody PENDING False False None)
   \<and> status_endpoint demo_request (recording spec_manager) (demo_store ''tok'', [])
       = (None, (demo_store ''tok'', []))
   \<and> fst (get_validation_status demo_request spec_manager (flow_store demo_world))
       = Json 404 (ErrorBody ''Validation flow not found'')
   \<and> status_endpoint demo_request (recording spec_manager) (flow_store demo_world, [])
       = (None, (flow_store demo_world, []))"
  by (simp add: status_endpoint_def route_guard_stage validationIDUserGuard_def user_id_def
      startsWith_def demo_request_def get_validation_status_def spec_getFlowState_def
      store_get_def demo_store_def demo_record_def demo_world_def)

text \<open>
  C10. The confirm endpoint does not answer 404 as claimed. For a request of the
  authenticated owner whose metadata lookup would return null, the guard sends
  nothing and does not call \<open>next()\<close>, so the handler function is never run: no
  lookup is made, neither \<open>completeFlow\<close> nor \<open>failFlow\<close> is called, the manager's
  state is unchanged and no response is sent.
\<close>

theorem confirm_endpoint_never_reaches_handler:
  "validationIDUserGuard demo_request = None
   \<and> handler_getFlowState (validationId demo_request) spec_manager (flow_store demo_world)
       = (Inr None, flow_store demo_world)
   \<and> fst (post_validation_confirm demo_request spec_manager (flow_store demo_world))
       = Json 404 (ErrorBody ''Validation flow not found'')
   \<and> confirm_endpoint demo_request (recording spec_manager) (flow_store demo_world, [])
       = (None, (flow_store demo_world, []))"
  by (simp add: confirm_endpoint_def route_guard_stage validationIDUserGuard_def user_id_def
      startsWith_def demo_request_def post_validation_confirm_def handler_getFlowState_def
      spec_getFlowState_def store_get_def demo_world_def FLOW_TYPE_def)

end
